theory Spec2Isabelle
  imports Main
begin

section \<open>Values of the configuration module\<close>

text \<open>
  The module \<^verbatim>\<open>src/server/mcpServers.ts\<close> is one object literal and two lookup
  functions. The TypeScript interfaces \<^verbatim>\<open>McpHttpServerConfig\<close> and
  \<^verbatim>\<open>McpStdioServerConfig\<close> are erased when the module runs, so the registry is
  modelled as the literal is written: objects are lists of (property name, value) in
  the order of the literal, strings are strings, arrays are lists.

  \<open>JInherited k\<close> stands for the value a property read finds under the name \<open>k\<close> on
  \<^verbatim>\<open>Object.prototype\<close> (a built-in function, or the prototype object itself for
  \<^verbatim>\<open>__proto__\<close>): every object literal inherits from that prototype.
\<close>

datatype jsval =
    JString string
  | JArray "jsval list"
  | JObject "(string \<times> jsval) list"
  | JInherited string

type_synonym js_object = "(string \<times> jsval) list"

text \<open>
  The property names every object literal inherits from \<^verbatim>\<open>Object.prototype\<close>
  (ECMAScript, with the legacy accessors of its Annex B). They belong to the language,
  not to the module.
\<close>

definition Object_prototype_keys :: "string list" where
  "Object_prototype_keys =
     [''constructor'', ''hasOwnProperty'', ''isPrototypeOf'', ''propertyIsEnumerable'',
      ''toLocaleString'', ''toString'', ''valueOf'', ''__proto__'',
      ''__defineGetter__'', ''__defineSetter__'', ''__lookupGetter__'',
      ''__lookupSetter__'']"

text \<open>
  The property read \<^verbatim>\<open>obj[key]\<close> on an object literal: the own property when there is
  one, else the inherited one, else \<^verbatim>\<open>undefined\<close> (\<open>None\<close>).
\<close>

definition get_property :: "js_object \<Rightarrow> string \<Rightarrow> jsval option" where
  "get_property fs k =
     (case map_of fs k of
        Some v \<Rightarrow> Some v
      | None \<Rightarrow> if k \<in> set Object_prototype_keys then Some (JInherited k) else None)"

text \<open>
  \<^verbatim>\<open>a || b\<close>: \<open>a\<close> when it is truthy, else \<open>b\<close>. \<^verbatim>\<open>undefined\<close> and the empty string
  are falsy; objects, arrays and functions are truthy.
\<close>

fun js_or :: "jsval option \<Rightarrow> jsval \<Rightarrow> jsval" where
  "js_or None b = b"
| "js_or (Some (JString s)) b = (if s = [] then b else JString s)"
| "js_or (Some v) b = v"

text \<open>
  \<^verbatim>\<open>process.env.NAME || ''\<close>: the environment is a partial map from names to strings,
  read once when the table is built.
\<close>

definition env_or_empty :: "(string \<rightharpoonup> string) \<Rightarrow> string \<Rightarrow> string" where
  "env_or_empty env k = (case env k of None \<Rightarrow> [] | Some s \<Rightarrow> if s = [] then [] else s)"

section \<open>The registry\<close>

definition MCP_SERVERS_BY_PROVIDER :: "(string \<rightharpoonup> string) \<Rightarrow> js_object" where
  "MCP_SERVERS_BY_PROVIDER env =
     [(''anthropic'', JObject
        [(''grep'', JObject
            [(''type'', JString ''http''),
             (''url'', JString ''https://mcp.grep.app'')]),
         (''supabase'', JObject
            [(''type'', JString ''stdio''),
             (''command'', JString ''npx''),
             (''args'', JArray [JString ''-y'', JString ''@supabase/mcp-server-supabase@latest'']),
             (''env'', JObject
                [(''SUPABASE_ACCESS_TOKEN'', JString (env_or_empty env ''SUPABASE_ACCESS_TOKEN''))])]),
         (''sequential-thinking'', JObject
            [(''type'', JString ''stdio''),
             (''command'', JString ''npx''),
             (''args'', JArray [JString ''-y'', JString ''@modelcontextprotocol/server-sequential-thinking''])])]),
      (''z-ai'', JObject
        [(''grep'', JObject
            [(''type'', JString ''http''),
             (''url'', JString ''https://mcp.grep.app'')]),
         (''web-search-prime'', JObject
            [(''type'', JString ''http''),
             (''url'', JString ''https://api.z.ai/api/mcp/web_search_prime/mcp''),
             (''headers'', JObject
                [(''Authorization'', JString (''Bearer '' @ env_or_empty env ''ZAI_API_KEY''))])]),
         (''zai-mcp-server'', JObject
            [(''type'', JString ''stdio''),
             (''command'', JString ''npx''),
             (''args'', JArray [JString ''-y'', JString ''@z_ai/mcp-server'']),
             (''env'', JObject
                [(''Z_AI_API_KEY'', JString (env_or_empty env ''ZAI_API_KEY'')),
                 (''Z_AI_MODE'', JString ''ZAI'')])]),
         (''web-reader'', JObject
            [(''type'', JString ''http''),
             (''url'', JString ''https://api.z.ai/api/mcp/web_reader/mcp''),
             (''headers'', JObject
                [(''Authorization'', JString (''Bearer '' @ env_or_empty env ''ZAI_API_KEY''))])]),
         (''supabase'', JObject
            [(''type'', JString ''stdio''),
             (''command'', JString ''npx''),
             (''args'', JArray [JString ''-y'', JString ''@supabase/mcp-server-supabase@latest'']),
             (''env'', JObject
                [(''SUPABASE_ACCESS_TOKEN'', JString (env_or_empty env ''SUPABASE_ACCESS_TOKEN''))])]),
         (''sequential-thinking'', JObject
            [(''type'', JString ''stdio''),
             (''command'', JString ''npx''),
             (''args'', JArray [JString ''-y'', JString ''@modelcontextprotocol/server-sequential-thinking''])])]),
      (''moonshot'', JObject
        [(''grep'', JObject
            [(''type'', JString ''http''),
             (''url'', JString ''https://mcp.grep.app'')]),
         (''supabase'', JObject
            [(''type'', JString ''stdio''),
             (''command'', JString ''npx''),
             (''args'', JArray [JString ''-y'', JString ''@supabase/mcp-server-supabase@latest'']),
             (''env'', JObject
                [(''SUPABASE_ACCESS_TOKEN'', JString (env_or_empty env ''SUPABASE_ACCESS_TOKEN''))])]),
         (''sequential-thinking'', JObject
            [(''type'', JString ''stdio''),
             (''command'', JString ''npx''),
             (''args'', JArray [JString ''-y'', JString ''@modelcontextprotocol/server-sequential-thinking''])])])]"

text \<open>
  \<^verbatim>\<open>getMcpServers(provider, _modelId?)\<close>: the provider is the property name read from
  the registry; the absent optional argument is \<open>None\<close>.
\<close>

definition getMcpServers :: "(string \<rightharpoonup> string) \<Rightarrow> string \<Rightarrow> string option \<Rightarrow> jsval" where
  "getMcpServers env provider modelId =
     js_or (get_property (MCP_SERVERS_BY_PROVIDER env) provider) (JObject [])"

section \<open>The allow-list\<close>

text \<open>
  The three arrays are local constants of \<^verbatim>\<open>getAllowedMcpTools\<close>; none depends on
  its arguments, so each is a constant here, under its own name.
\<close>

definition grepTools :: "string list" where
  "grepTools = [''mcp__grep__searchGitHub'']"

definition supabaseTools :: "string list" where
  "supabaseTools =
     [''mcp__supabase__search_docs'',
      ''mcp__supabase__list_organizations'',
      ''mcp__supabase__get_organization'',
      ''mcp__supabase__list_projects'',
      ''mcp__supabase__get_project'',
      ''mcp__supabase__list_tables'',
      ''mcp__supabase__list_extensions'',
      ''mcp__supabase__list_migrations'',
      ''mcp__supabase__apply_migration'',
      ''mcp__supabase__execute_sql'',
      ''mcp__supabase__get_logs'',
      ''mcp__supabase__get_advisors'',
      ''mcp__supabase__get_project_url'',
      ''mcp__supabase__get_publishable_keys'',
      ''mcp__supabase__generate_typescript_types'',
      ''mcp__supabase__list_edge_functions'',
      ''mcp__supabase__get_edge_function'',
      ''mcp__supabase__deploy_edge_function'']"

definition sequentialThinkingTools :: "string list" where
  "sequentialThinkingTools = [''mcp__sequential-thinking__sequentialthinking_tools'']"

text \<open>
  \<^verbatim>\<open>getAllowedMcpTools(provider, _modelId?)\<close>: three strict comparisons in the order
  of the source, an array literal with spreads in each branch, and the empty array at
  the end.
\<close>

definition getAllowedMcpTools :: "string \<Rightarrow> string option \<Rightarrow> string list" where
  "getAllowedMcpTools provider modelId =
     (if provider = ''anthropic'' then
        grepTools @ supabaseTools @ sequentialThinkingTools
      else if provider = ''z-ai'' then
        grepTools @
        [''mcp__web-search-prime__search'',
         ''mcp__zai-mcp-server__image_analysis'',
         ''mcp__zai-mcp-server__video_analysis'',
         ''mcp__web-reader__webReader''] @
        supabaseTools @ sequentialThinkingTools
      else if provider = ''moonshot'' then
        grepTools @ supabaseTools @ sequentialThinkingTools
      else [])"

section \<open>Reading the results\<close>

text \<open>
  Modelled from the spec: the type \<^verbatim>\<open>ProviderType\<close> is imported from
  \<^verbatim>\<open>../client/config/models\<close>, which is not among the sources. The spec gives the closed
  set of providers as anthropic, z-ai and moonshot; these are also the keys of the
  registry literal, in this order (lemma \<open>registry_keys\<close>).
\<close>

definition knownProviders :: "string list" where
  "knownProviders = [''anthropic'', ''z-ai'', ''moonshot'']"

text \<open>
  The value found by following own property names from an object: what a caller reads
  as \<^verbatim>\<open>servers['grep'].url\<close>. \<open>None\<close> is an absent property.
\<close>

fun lookup_path :: "jsval \<Rightarrow> string list \<Rightarrow> jsval option" where
  "lookup_path v [] = Some v"
| "lookup_path v (k # ks) =
     (case v of
        JObject fs \<Rightarrow> (case map_of fs k of Some w \<Rightarrow> lookup_path w ks | None \<Rightarrow> None)
      | _ \<Rightarrow> None)"

definition own_keys :: "jsval \<Rightarrow> string list" where
  "own_keys v = (case v of JObject fs \<Rightarrow> map fst fs | _ \<Rightarrow> [])"

text \<open>
  The two shapes of a server descriptor, read off the object as it exists when the
  module runs. \<open>tags\<close> collects the values of every \<^verbatim>\<open>type\<close> property, so
  \<open>tags fs = [JString ''http'']\<close> says that there is exactly one tag and that it is
  \<^verbatim>\<open>'http'\<close>. \<open>one_variant\<close> holds when exactly one of the two shapes fits.
\<close>

definition tags :: "js_object \<Rightarrow> jsval list" where
  "tags fs = map snd (filter (\<lambda>f. fst f = ''type'') fs)"

definition http_shaped :: "js_object \<Rightarrow> bool" where
  "http_shaped fs =
     (tags fs = [JString ''http''] \<and> ''url'' \<in> set (map fst fs) \<and>
      set (map fst fs) \<inter> {''command'', ''args'', ''env''} = {})"

definition stdio_shaped :: "js_object \<Rightarrow> bool" where
  "stdio_shaped fs =
     (tags fs = [JString ''stdio''] \<and> ''command'' \<in> set (map fst fs) \<and>
      set (map fst fs) \<inter> {''url'', ''headers''} = {})"

definition one_variant :: "jsval \<Rightarrow> bool" where
  "one_variant d = (case d of JObject fs \<Rightarrow> http_shaped fs \<noteq> stdio_shaped fs | _ \<Rightarrow> False)"

text \<open>
  \<open>tool_of_server k t\<close>: the identifier \<open>t\<close> is \<^verbatim>\<open>mcp__\<close>, the server name \<open>k\<close>,
  \<^verbatim>\<open>__\<close>, and a tool name that is not empty.
\<close>

definition tool_of_server :: "string \<Rightarrow> string \<Rightarrow> bool" where
  "tool_of_server k t =
     (let pre = ''mcp__'' @ k @ ''__'' in take (length pre) t = pre \<and> length pre < length t)"

section \<open>Auxiliary facts\<close>

lemma registry_keys: "map fst (MCP_SERVERS_BY_PROVIDER env) = knownProviders"
  by (simp add: MCP_SERVERS_BY_PROVIDER_def knownProviders_def)

lemma tool_of_serverD:
  assumes "tool_of_server k t"
  shows "\<exists>tool. tool \<noteq> [] \<and> t = ''mcp__'' @ k @ ''__'' @ tool"
proof -
  let ?pre = "''mcp__'' @ k @ ''__''"
  from assms have pre: "take (length ?pre) t = ?pre" and longer: "length ?pre < length t"
    by (simp_all add: tool_of_server_def Let_def)
  have "t = take (length ?pre) t @ drop (length ?pre) t" by simp
  with pre have "t = ?pre @ drop (length ?pre) t" by simp
  moreover from longer have "drop (length ?pre) t \<noteq> []" by simp
  ultimately show ?thesis by (metis append.assoc)
qed

lemma js_or_JObject:
  "js_or (Some v) (JObject []) = JObject servers \<Longrightarrow> servers = [] \<or> v = JObject servers"
  by (cases v) (auto split: if_splits)

text \<open>
  A mapping returned by \<open>getMcpServers\<close> is the empty object of the fallback or an
  entry of the registry.
\<close>

lemma getMcpServers_JObject:
  assumes "getMcpServers env p m = JObject servers"
  shows "servers = [] \<or> (p, JObject servers) \<in> set (MCP_SERVERS_BY_PROVIDER env)"
proof (cases "map_of (MCP_SERVERS_BY_PROVIDER env) p")
  case None
  with assms show ?thesis
    by (simp add: getMcpServers_def get_property_def split: if_splits)
next
  case (Some v)
  with assms have "js_or (Some v) (JObject []) = JObject servers"
    by (simp add: getMcpServers_def get_property_def)
  then have "servers = [] \<or> v = JObject servers"
    by (rule js_or_JObject)
  moreover from Some have "(p, v) \<in> set (MCP_SERVERS_BY_PROVIDER env)"
    by (rule map_of_SomeD)
  ultimately show ?thesis by auto
qed

lemma registry_one_variant:
  assumes "(p, v) \<in> set (MCP_SERVERS_BY_PROVIDER env)"
  shows "\<exists>servers. v = JObject servers \<and> (\<forall>(n, d) \<in> set servers. one_variant d)"
  using assms
  by (auto simp: MCP_SERVERS_BY_PROVIDER_def one_variant_def http_shaped_def
      stdio_shaped_def tags_def)

section \<open>Allow-lists of the known providers\<close>

text \<open>
  C1. \<^verbatim>\<open>getAllowedMcpTools('z-ai')\<close> is a sequence of exactly 24 identifiers in a fixed
  order: the code-search tool \<^verbatim>\<open>mcp__grep__searchGitHub\<close>, one web-search tool, the
  two media-analysis tools, one web-reader tool, the 18 supabase tools, and the one
  sequential-thinking tool, whatever the model identifier.
\<close>

theorem zai_allowed_tools:
  "getAllowedMcpTools ''z-ai'' m =
     [''mcp__grep__searchGitHub'',
      ''mcp__web-search-prime__search'',
      ''mcp__zai-mcp-server__image_analysis'',
      ''mcp__zai-mcp-server__video_analysis'',
      ''mcp__web-reader__webReader'',
      ''mcp__supabase__search_docs'',
      ''mcp__supabase__list_organizations'',
      ''mcp__supabase__get_organization'',
      ''mcp__supabase__list_projects'',
      ''mcp__supabase__get_project'',
      ''mcp__supabase__list_tables'',
      ''mcp__supabase__list_extensions'',
      ''mcp__supabase__list_migrations'',
      ''mcp__supabase__apply_migration'',
      ''mcp__supabase__execute_sql'',
      ''mcp__supabase__get_logs'',
      ''mcp__supabase__get_advisors'',
      ''mcp__supabase__get_project_url'',
      ''mcp__supabase__get_publishable_keys'',
      ''mcp__supabase__generate_typescript_types'',
      ''mcp__supabase__list_edge_functions'',
      ''mcp__supabase__get_edge_function'',
      ''mcp__supabase__deploy_edge_function'',
      ''mcp__sequential-thinking__sequentialthinking_tools'']
   \<and> length (getAllowedMcpTools ''z-ai'' m) = 24
   \<and> getAllowedMcpTools ''z-ai'' m =
       grepTools @ [''mcp__web-search-prime__search''] @
       [''mcp__zai-mcp-server__image_analysis'', ''mcp__zai-mcp-server__video_analysis''] @
       [''mcp__web-reader__webReader''] @ supabaseTools @ sequentialThinkingTools
   \<and> grepTools = [''mcp__grep__searchGitHub'']
   \<and> length supabaseTools = 18
   \<and> list_all (tool_of_server ''supabase'') supabaseTools
   \<and> length sequentialThinkingTools = 1
   \<and> list_all (tool_of_server ''sequential-thinking'') sequentialThinkingTools"
  by (simp add: getAllowedMcpTools_def grepTools_def supabaseTools_def
      sequentialThinkingTools_def tool_of_server_def)

text \<open>
  C2, as stated: the z-ai list is the base set plus five further identifiers. It is
  false: the list is four entries longer than the base list, and four of its entries
  lie outside the base set.
\<close>

theorem zai_five_additional_counterexample:
  "length (getAllowedMcpTools ''z-ai'' None) \<noteq>
     length (grepTools @ supabaseTools @ sequentialThinkingTools) + 5 \<and>
   length (filter (\<lambda>t. t \<notin> set (grepTools @ supabaseTools @ sequentialThinkingTools))
      (getAllowedMcpTools ''z-ai'' None)) \<noteq> 5"
  by (simp add: getAllowedMcpTools_def grepTools_def supabaseTools_def
      sequentialThinkingTools_def)

text \<open>
  C2, amended: for provider z-ai the list is the base set plus four further
  identifiers (web search, image analysis, video analysis, web content reading). The
  entries outside the base set are exactly these four, in this order; the entries inside
  it are the base list, in its order; no identifier occurs twice.
\<close>

theorem zai_four_additional:
  "filter (\<lambda>t. t \<notin> set (grepTools @ supabaseTools @ sequentialThinkingTools))
      (getAllowedMcpTools ''z-ai'' m) =
     [''mcp__web-search-prime__search'',
      ''mcp__zai-mcp-server__image_analysis'',
      ''mcp__zai-mcp-server__video_analysis'',
      ''mcp__web-reader__webReader'']
   \<and> filter (\<lambda>t. t \<in> set (grepTools @ supabaseTools @ sequentialThinkingTools))
      (getAllowedMcpTools ''z-ai'' m) = grepTools @ supabaseTools @ sequentialThinkingTools
   \<and> length (getAllowedMcpTools ''z-ai'' m) =
       length (grepTools @ supabaseTools @ sequentialThinkingTools) + 4
   \<and> distinct (getAllowedMcpTools ''z-ai'' m)"
  by (simp add: getAllowedMcpTools_def grepTools_def supabaseTools_def
      sequentialThinkingTools_def)

text \<open>
  C3. \<^verbatim>\<open>getAllowedMcpTools('anthropic')\<close> is a sequence of exactly 20 identifiers: the
  one code-search tool, then the 18 supabase tools, then the one sequential-thinking
  tool, whatever the model identifier.
\<close>

theorem anthropic_allowed_tools:
  "getAllowedMcpTools ''anthropic'' m =
     [''mcp__grep__searchGitHub'',
      ''mcp__supabase__search_docs'',
      ''mcp__supabase__list_organizations'',
      ''mcp__supabase__get_organization'',
      ''mcp__supabase__list_projects'',
      ''mcp__supabase__get_project'',
      ''mcp__supabase__list_tables'',
      ''mcp__supabase__list_extensions'',
      ''mcp__supabase__list_migrations'',
      ''mcp__supabase__apply_migration'',
      ''mcp__supabase__execute_sql'',
      ''mcp__supabase__get_logs'',
      ''mcp__supabase__get_advisors'',
      ''mcp__supabase__get_project_url'',
      ''mcp__supabase__get_publishable_keys'',
      ''mcp__supabase__generate_typescript_types'',
      ''mcp__supabase__list_edge_functions'',
      ''mcp__supabase__get_edge_function'',
      ''mcp__supabase__deploy_edge_function'',
      ''mcp__sequential-thinking__sequentialthinking_tools'']
   \<and> length (getAllowedMcpTools ''anthropic'' m) = 20
   \<and> getAllowedMcpTools ''anthropic'' m = grepTools @ supabaseTools @ sequentialThinkingTools
   \<and> length grepTools = 1
   \<and> length supabaseTools = 18
   \<and> list_all (tool_of_server ''supabase'') supabaseTools
   \<and> length sequentialThinkingTools = 1
   \<and> list_all (tool_of_server ''sequential-thinking'') sequentialThinkingTools"
  by (simp add: getAllowedMcpTools_def grepTools_def supabaseTools_def
      sequentialThinkingTools_def tool_of_server_def)

text \<open>
  C4. Whatever model identifiers are passed (or left out), the list for moonshot is
  the list for anthropic, element for element.
\<close>

theorem moonshot_same_as_anthropic:
  "getAllowedMcpTools ''moonshot'' m = getAllowedMcpTools ''anthropic'' m'"
  by (simp add: getAllowedMcpTools_def)

section \<open>Unknown providers\<close>

text \<open>
  C5. Every provider outside the known set is to get the empty mapping from
  \<open>getMcpServers\<close> and the empty sequence from \<open>getAllowedMcpTools\<close>. The fallback
  \<^verbatim>\<open>|| {}\<close> of \<open>getMcpServers\<close> is written for that, and at the provider
  \<^verbatim>\<open>'openai'\<close> it is taken. At the provider \<^verbatim>\<open>'constructor'\<close> it is not: the
  registry is an object literal, the read \<^verbatim>\<open>MCP_SERVERS_BY_PROVIDER['constructor']\<close>
  finds the property inherited from \<^verbatim>\<open>Object.prototype\<close>, that value is truthy, and
  it is returned in place of the empty mapping. \<open>getAllowedMcpTools\<close>, which compares
  the provider with the three known names, returns the empty sequence at the same input.
\<close>

theorem unknown_provider_constructor:
  "''constructor'' \<notin> set knownProviders \<and>
   getMcpServers env ''constructor'' m = JInherited ''constructor'' \<and>
   getMcpServers env ''constructor'' m \<noteq> JObject [] \<and>
   getAllowedMcpTools ''constructor'' m = [] \<and>
   ''openai'' \<notin> set knownProviders \<and>
   getMcpServers env ''openai'' m = JObject [] \<and>
   getAllowedMcpTools ''openai'' m = []"
  by (simp add: knownProviders_def getMcpServers_def get_property_def
      getAllowedMcpTools_def MCP_SERVERS_BY_PROVIDER_def Object_prototype_keys_def)

section \<open>Servers of the known providers\<close>

text \<open>
  C6. For each of the three known providers the mapping returned by \<open>getMcpServers\<close>
  has a server \<^verbatim>\<open>grep\<close> whose descriptor is of the HTTP shape, with the url
  \<^verbatim>\<open>https://mcp.grep.app\<close>.
\<close>

theorem grep_server_for_known_providers:
  assumes "p \<in> set knownProviders"
  shows "lookup_path (getMcpServers env p m) [''grep''] =
           Some (JObject [(''type'', JString ''http''), (''url'', JString ''https://mcp.grep.app'')])
         \<and> http_shaped [(''type'', JString ''http''), (''url'', JString ''https://mcp.grep.app'')]
         \<and> lookup_path (getMcpServers env p m) [''grep'', ''type''] = Some (JString ''http'')
         \<and> lookup_path (getMcpServers env p m) [''grep'', ''url''] =
             Some (JString ''https://mcp.grep.app'')"
  using assms
  by (auto simp: knownProviders_def getMcpServers_def get_property_def
      MCP_SERVERS_BY_PROVIDER_def http_shaped_def tags_def)

text \<open>C6 at the provider moonshot.\<close>

theorem grep_server_for_known_providers_witness:
  "''moonshot'' \<in> set knownProviders \<and>
   lookup_path (getMcpServers Map.empty ''moonshot'' None) [''grep'', ''url''] =
     Some (JString ''https://mcp.grep.app'')"
proof -
  have k: "''moonshot'' \<in> set knownProviders"
    by (simp add: knownProviders_def)
  from grep_server_for_known_providers [OF k, of Map.empty None] k
  show ?thesis by simp
qed

section \<open>The model identifier\<close>

text \<open>
  C7. The model identifier has no influence: for every provider and any two model
  identifiers (absent included) both functions return the same result.
\<close>

theorem modelId_has_no_effect:
  "getAllowedMcpTools p m1 = getAllowedMcpTools p m2 \<and>
   getMcpServers env p m1 = getMcpServers env p m2"
  by (simp add: getAllowedMcpTools_def getMcpServers_def)

section \<open>Credentials\<close>

text \<open>
  C8. When \<^verbatim>\<open>SUPABASE_ACCESS_TOKEN\<close> and \<^verbatim>\<open>ZAI_API_KEY\<close> are unset as the table is
  built, each \<^verbatim>\<open>Authorization\<close> header of the registry is present and is \<^verbatim>\<open>'Bearer '\<close>
  followed by the empty string, and each credential injected into a process
  descriptor's environment is present and is the empty string. The six reads below are
  all the places where the literal reads \<^verbatim>\<open>process.env\<close>; the grep descriptor and the
  sequential-thinking descriptor carry no credential and have no \<^verbatim>\<open>headers\<close> or
  \<^verbatim>\<open>env\<close> property.
\<close>

theorem unset_credentials_empty_strings:
  assumes "env ''SUPABASE_ACCESS_TOKEN'' = None" and "env ''ZAI_API_KEY'' = None"
  shows "lookup_path (JObject (MCP_SERVERS_BY_PROVIDER env))
           [''z-ai'', ''web-search-prime'', ''headers'', ''Authorization'']
           = Some (JString (''Bearer '' @ []))
       \<and> lookup_path (JObject (MCP_SERVERS_BY_PROVIDER env))
           [''z-ai'', ''web-reader'', ''headers'', ''Authorization'']
           = Some (JString (''Bearer '' @ []))
       \<and> lookup_path (JObject (MCP_SERVERS_BY_PROVIDER env))
           [''z-ai'', ''zai-mcp-server'', ''env'', ''Z_AI_API_KEY''] = Some (JString [])
       \<and> lookup_path (JObject (MCP_SERVERS_BY_PROVIDER env))
           [''anthropic'', ''supabase'', ''env'', ''SUPABASE_ACCESS_TOKEN''] = Some (JString [])
       \<and> lookup_path (JObject (MCP_SERVERS_BY_PROVIDER env))
           [''z-ai'', ''supabase'', ''env'', ''SUPABASE_ACCESS_TOKEN''] = Some (JString [])
       \<and> lookup_path (JObject (MCP_SERVERS_BY_PROVIDER env))
           [''moonshot'', ''supabase'', ''env'', ''SUPABASE_ACCESS_TOKEN''] = Some (JString [])"
  using assms
  by (simp add: MCP_SERVERS_BY_PROVIDER_def env_or_empty_def)

text \<open>C8 in an environment that sets only \<^verbatim>\<open>HOME\<close>.\<close>

theorem unset_credentials_empty_strings_witness:
  "(Map.empty(''HOME'' \<mapsto> ''/home/agent'')) ''SUPABASE_ACCESS_TOKEN'' = None \<and>
   (Map.empty(''HOME'' \<mapsto> ''/home/agent'')) ''ZAI_API_KEY'' = None \<and>
   lookup_path (JObject (MCP_SERVERS_BY_PROVIDER (Map.empty(''HOME'' \<mapsto> ''/home/agent''))))
     [''z-ai'', ''web-reader'', ''headers'', ''Authorization''] = Some (JString ''Bearer '') \<and>
   lookup_path (JObject (MCP_SERVERS_BY_PROVIDER (Map.empty(''HOME'' \<mapsto> ''/home/agent''))))
     [''anthropic'', ''supabase'', ''env'', ''SUPABASE_ACCESS_TOKEN''] = Some (JString [])"
proof -
  have s: "(Map.empty(''HOME'' \<mapsto> ''/home/agent'')) ''SUPABASE_ACCESS_TOKEN'' = None"
    by simp
  have z: "(Map.empty(''HOME'' \<mapsto> ''/home/agent'')) ''ZAI_API_KEY'' = None"
    by simp
  from unset_credentials_empty_strings [OF s z] s z
  show ?thesis by (simp only: append_Nil2)
qed

section \<open>Descriptor variants\<close>

text \<open>
  C9. Every descriptor of the registry, and of every mapping \<open>getMcpServers\<close> returns,
  has exactly one variant tag and only the fields of that variant: it is an object with
  one \<^verbatim>\<open>type\<close> property, and either that is \<^verbatim>\<open>'http'\<close>, with a url and without
  command, args and env, or it is \<^verbatim>\<open>'stdio'\<close>, with a command and without url and
  headers. The first half also says that every value of the registry is a mapping.
\<close>

theorem descriptors_one_variant:
  "((p, v) \<in> set (MCP_SERVERS_BY_PROVIDER env) \<longrightarrow>
      (\<exists>servers. v = JObject servers \<and> (\<forall>(n, d) \<in> set servers. one_variant d))) \<and>
   (getMcpServers env p m = JObject servers' \<longrightarrow> (\<forall>(n, d) \<in> set servers'. one_variant d))"
proof (intro conjI impI)
  assume "(p, v) \<in> set (MCP_SERVERS_BY_PROVIDER env)"
  then show "\<exists>servers. v = JObject servers \<and> (\<forall>(n, d) \<in> set servers. one_variant d)"
    by (rule registry_one_variant)
next
  assume "getMcpServers env p m = JObject servers'"
  then have "servers' = [] \<or> (p, JObject servers') \<in> set (MCP_SERVERS_BY_PROVIDER env)"
    by (rule getMcpServers_JObject)
  then show "\<forall>(n, d) \<in> set servers'. one_variant d"
  proof
    assume "servers' = []"
    then show ?thesis by simp
  next
    assume "(p, JObject servers') \<in> set (MCP_SERVERS_BY_PROVIDER env)"
    from registry_one_variant [OF this] show ?thesis by simp
  qed
qed

text \<open>C9 at the sequential-thinking descriptor that \<open>getMcpServers\<close> returns for moonshot.\<close>

theorem descriptors_one_variant_witness:
  "one_variant (JObject [(''type'', JString ''stdio''), (''command'', JString ''npx''),
       (''args'', JArray [JString ''-y'',
          JString ''@modelcontextprotocol/server-sequential-thinking''])])"
proof -
  let ?d = "JObject [(''type'', JString ''stdio''), (''command'', JString ''npx''),
       (''args'', JArray [JString ''-y'',
          JString ''@modelcontextprotocol/server-sequential-thinking''])]"
  let ?env = "Map.empty :: string \<rightharpoonup> string"
  obtain servers where s: "getMcpServers ?env ''moonshot'' None = JObject servers"
    and d: "(''sequential-thinking'', ?d) \<in> set servers"
    by (simp add: getMcpServers_def get_property_def MCP_SERVERS_BY_PROVIDER_def)
  from descriptors_one_variant [of "''moonshot''" "JObject servers" ?env None servers] s
  have "\<forall>(n, d) \<in> set servers. one_variant d" by simp
  with d show ?thesis by auto
qed

section \<open>The allow-list names registered servers only\<close>

text \<open>
  C10. For every provider, every identifier of \<open>getAllowedMcpTools\<close> is
  \<^verbatim>\<open>mcp__\<close>, a server name, \<^verbatim>\<open>__\<close> and a tool name, where the server name is a key
  of the mapping \<open>getMcpServers\<close> returns for that provider.
\<close>

theorem allowed_tools_name_registered_servers:
  "\<forall>t \<in> set (getAllowedMcpTools p m).
     \<exists>k \<in> set (own_keys (getMcpServers env p m')).
       \<exists>tool. tool \<noteq> [] \<and> t = ''mcp__'' @ k @ ''__'' @ tool"
proof
  fix t assume t: "t \<in> set (getAllowedMcpTools p m)"
  have "list_all (\<lambda>t. list_ex (\<lambda>k. tool_of_server k t) (own_keys (getMcpServers env p m')))
          (getAllowedMcpTools p m)"
    by (simp add: getAllowedMcpTools_def getMcpServers_def get_property_def
        MCP_SERVERS_BY_PROVIDER_def own_keys_def grepTools_def supabaseTools_def
        sequentialThinkingTools_def tool_of_server_def)
  with t obtain k where "k \<in> set (own_keys (getMcpServers env p m'))" "tool_of_server k t"
    by (auto simp: list_all_iff list_ex_iff)
  then show "\<exists>k \<in> set (own_keys (getMcpServers env p m')).
       \<exists>tool. tool \<noteq> [] \<and> t = ''mcp__'' @ k @ ''__'' @ tool"
    by (blast dest: tool_of_serverD)
qed

text \<open>C10 at the video-analysis tool of z-ai.\<close>

theorem allowed_tools_name_registered_servers_witness:
  "\<exists>k \<in> set (own_keys (getMcpServers Map.empty ''z-ai'' None)).
     \<exists>tool. tool \<noteq> [] \<and> ''mcp__zai-mcp-server__video_analysis'' = ''mcp__'' @ k @ ''__'' @ tool"
proof -
  have "''mcp__zai-mcp-server__video_analysis'' \<in> set (getAllowedMcpTools ''z-ai'' None)"
    by (simp add: getAllowedMcpTools_def)
  with allowed_tools_name_registered_servers [of "''z-ai''" None Map.empty None]
  show ?thesis by blast
qed

end
